theory Spec2Isabelle
  imports Main
begin

section \<open>Data model (src/types/index.ts)\<close>

text \<open>
  Text is a sequence of code units; the model covers the code units below 256 (ASCII and
  Latin-1), which is where the trigger phrases and every fixed string of the program live.
  A \<open>Date\<close> is its millisecond count. The values of \<open>uuidv4()\<close> and of
  \<open>new Date()\<close> are not computed by the program: every action takes the values it
  draws as arguments, so each theorem holds for whatever the generator and the clock return.
  An action of the store runs in one synchronous step: the clock readings of that step are
  one argument \<open>now\<close>, and so is the uuid of the message it builds.
\<close>

type_synonym date = int

datatype role = User | Assistant

record message =
  m_id :: string
  m_role :: role
  m_content :: string
  m_timestamp :: date

record session =
  s_id :: string
  s_name :: string
  s_description :: string
  s_messages :: "message list"
  s_createdAt :: date
  s_updatedAt :: date

record learning_session =
  l_id :: string
  l_name :: string
  l_description :: string
  l_content :: string
  l_source :: "string option"
  l_createdAt :: date
  l_updatedAt :: date

datatype theme = Light | Dark | System

record user_settings =
  theme :: theme
  preferredModel :: string
  useEmojis :: bool
  enableWebScraping :: bool
  enableFileUpload :: bool

section \<open>The store (useAppStore)\<close>

record app_state =
  sessions :: "session list"
  currentSessionId :: "string option"
  learningData :: "learning_session list"
  isLoading :: bool
  userSettings :: user_settings

definition initialState :: app_state where
  "initialState =
     \<lparr>sessions = [], currentSessionId = None, learningData = [], isLoading = False,
      userSettings = \<lparr>theme = System, preferredModel = ''claude-haiku'', useEmojis = True,
                      enableWebScraping = True, enableFileUpload = True\<rparr>\<rparr>"

text \<open>
  \<open>createNewSession\<close>: \<open>newSessionId\<close> is the drawn uuid, \<open>now\<close> the clock.
\<close>

definition createNewSession :: "string \<Rightarrow> string \<Rightarrow> string \<Rightarrow> date \<Rightarrow> app_state \<Rightarrow> app_state" where
  "createNewSession name description newSessionId now state =
     state\<lparr>sessions := sessions state @
                [\<lparr>s_id = newSessionId, s_name = name, s_description = description,
                  s_messages = [], s_createdAt = now, s_updatedAt = now\<rparr>],
            currentSessionId := Some newSessionId\<rparr>"

definition setCurrentSession :: "string \<Rightarrow> app_state \<Rightarrow> app_state" where
  "setCurrentSession sessionId state = state\<lparr>currentSessionId := Some sessionId\<rparr>"

text \<open>
  \<open>deleteSession\<close>. \<open>find(...)?.id || null\<close>: the id of the first session with another
  id, and null when there is none or when that id is the empty string (falsy).
\<close>

definition deleteSession :: "string \<Rightarrow> app_state \<Rightarrow> app_state" where
  "deleteSession sessionId state =
     state\<lparr>sessions := filter (\<lambda>session. s_id session \<noteq> sessionId) (sessions state),
            currentSessionId :=
              (if currentSessionId state = Some sessionId then
                 (if length (sessions state) > 1 then
                    (case find (\<lambda>s. s_id s \<noteq> sessionId) (sessions state) of
                       None \<Rightarrow> None
                     | Some s \<Rightarrow> (if s_id s = [] then None else Some (s_id s)))
                  else None)
               else currentSessionId state)\<rparr>"

text \<open>\<open>description || session.description\<close>: an absent or empty description keeps the old one.\<close>

definition renameSession :: "string \<Rightarrow> string \<Rightarrow> string option \<Rightarrow> date \<Rightarrow> app_state \<Rightarrow> app_state" where
  "renameSession sessionId name description now state =
     state\<lparr>sessions := map (\<lambda>session.
        if s_id session = sessionId then
          session\<lparr>s_name := name,
                  s_description := (case description of
                                      None \<Rightarrow> s_description session
                                    | Some d \<Rightarrow> if d = [] then s_description session else d),
                  s_updatedAt := now\<rparr>
        else session) (sessions state)\<rparr>"

text \<open>
  \<open>addMessage\<close>. \<open>!state.currentSessionId\<close> holds for null and for the empty string.
  \<open>newSessionId\<close> is the uuid drawn for the session created in that case, \<open>messageId\<close>
  the uuid of the message, \<open>now\<close> the clock.
\<close>

definition noCurrentSession :: "app_state \<Rightarrow> bool" where
  "noCurrentSession state =
     (case currentSessionId state of None \<Rightarrow> True | Some c \<Rightarrow> c = [])"

definition addMessage :: "string \<Rightarrow> role \<Rightarrow> string \<Rightarrow> string \<Rightarrow> date \<Rightarrow> app_state \<Rightarrow> app_state" where
  "addMessage content role newSessionId messageId now state =
     (if noCurrentSession state then
        state\<lparr>sessions :=
                 \<lparr>s_id = newSessionId, s_name = ''Nova conversa'',
                  s_description = ''Conversa iniciada automaticamente'',
                  s_messages = [\<lparr>m_id = messageId, m_role = role, m_content = content,
                                 m_timestamp = now\<rparr>],
                  s_createdAt = now, s_updatedAt = now\<rparr> # sessions state,
               currentSessionId := Some newSessionId\<rparr>
      else
        state\<lparr>sessions := map (\<lambda>session.
          if Some (s_id session) = currentSessionId state then
            session\<lparr>s_messages := s_messages session @
                       [\<lparr>m_id = messageId, m_role = role, m_content = content,
                         m_timestamp = now\<rparr>],
                    s_updatedAt := now\<rparr>
          else session) (sessions state)\<rparr>)"

definition clearMessages :: "string \<Rightarrow> date \<Rightarrow> app_state \<Rightarrow> app_state" where
  "clearMessages sessionId now state =
     state\<lparr>sessions := map (\<lambda>session.
        if s_id session = sessionId then session\<lparr>s_messages := [], s_updatedAt := now\<rparr>
        else session) (sessions state)\<rparr>"

definition addLearningSession ::
  "string \<Rightarrow> string \<Rightarrow> string \<Rightarrow> string option \<Rightarrow> string \<Rightarrow> date \<Rightarrow> app_state \<Rightarrow> app_state" where
  "addLearningSession name content description source newId now state =
     state\<lparr>learningData := learningData state @
        [\<lparr>l_id = newId, l_name = name, l_description = description, l_content = content,
          l_source = source, l_createdAt = now, l_updatedAt = now\<rparr>]\<rparr>"

definition deleteLearningSession :: "string \<Rightarrow> app_state \<Rightarrow> app_state" where
  "deleteLearningSession ident state =
     state\<lparr>learningData := filter (\<lambda>session. l_id session \<noteq> ident) (learningData state)\<rparr>"

text \<open>
  \<open>updates\<close> is a \<open>Partial<Omit<LearningSession, 'id' | 'createdAt'>>\<close>: each field is
  absent (\<open>None\<close>) or given. The spread \<open>{...session, ...updates, updatedAt: new Date()}\<close>
  overwrites the given fields and then \<open>updatedAt\<close>, so a given \<open>updatedAt\<close> is lost.
\<close>

record learning_updates =
  u_name :: "string option"
  u_description :: "string option"
  u_content :: "string option"
  u_source :: "string option option"
  u_updatedAt :: "date option"

definition mergeUpdates :: "learning_session \<Rightarrow> learning_updates \<Rightarrow> date \<Rightarrow> learning_session" where
  "mergeUpdates session updates now =
     session\<lparr>l_name := (case u_name updates of None \<Rightarrow> l_name session | Some v \<Rightarrow> v),
             l_description := (case u_description updates of None \<Rightarrow> l_description session | Some v \<Rightarrow> v),
             l_content := (case u_content updates of None \<Rightarrow> l_content session | Some v \<Rightarrow> v),
             l_source := (case u_source updates of None \<Rightarrow> l_source session | Some v \<Rightarrow> v),
             l_updatedAt := now\<rparr>"

definition updateLearningSession :: "string \<Rightarrow> learning_updates \<Rightarrow> date \<Rightarrow> app_state \<Rightarrow> app_state" where
  "updateLearningSession ident updates now state =
     state\<lparr>learningData := map (\<lambda>session.
        if l_id session = ident then mergeUpdates session updates now else session)
        (learningData state)\<rparr>"

section \<open>Strings\<close>

text \<open>
  \<open>String.prototype.trim\<close> removes white space at both ends; below 256 these are the code
  units 9 to 13, 32 and 160.
\<close>

definition isWhiteSpace :: "char \<Rightarrow> bool" where
  "isWhiteSpace c = (of_char c \<in> {9, 10, 11, 12, 13, 32, 160 :: nat})"

definition trim :: "string \<Rightarrow> string" where
  "trim s = rev (dropWhile isWhiteSpace (rev (dropWhile isWhiteSpace s)))"

text \<open>\<open>toLowerCase\<close> below 256: A to Z and the Latin-1 capitals 192 to 222 (but 215) move by 32.\<close>

definition toLowerChar :: "char \<Rightarrow> char" where
  "toLowerChar c =
     (let n = of_char c :: nat in
      if (65 \<le> n \<and> n \<le> 90) \<or> (192 \<le> n \<and> n \<le> 222 \<and> n \<noteq> 215) then char_of (n + 32)
      else c)"

definition toLowerCase :: "string \<Rightarrow> string" where
  "toLowerCase s = map toLowerChar s"

fun startsWith :: "string \<Rightarrow> string \<Rightarrow> bool" where
  "startsWith s [] = True"
| "startsWith [] (p # ps) = False"
| "startsWith (c # cs) (p # ps) = (c = p \<and> startsWith cs ps)"

text \<open>\<open>String.prototype.includes\<close>: the search string occurs at some position.\<close>

fun includesStr :: "string \<Rightarrow> string \<Rightarrow> bool" where
  "includesStr [] t = (t = [])"
| "includesStr (c # cs) t = (startsWith (c # cs) t \<or> includesStr cs t)"

text \<open>
  A regular expression with the \<open>i\<close> flag compares the canonical (upper-case) forms of
  the code units. Below 256 the code units whose upper case is another single code unit
  below 256 are a to z and 224 to 254 (but 247); every other one is canonical.
\<close>

definition canonicalize :: "char \<Rightarrow> char" where
  "canonicalize c =
     (let n = of_char c :: nat in
      if (97 \<le> n \<and> n \<le> 122) \<or> (224 \<le> n \<and> n \<le> 254 \<and> n \<noteq> 247) then char_of (n - 32)
      else c)"

text \<open>A literal pattern matched at the start of the text: what follows the match.\<close>

fun matchIgnoreCase :: "string \<Rightarrow> string \<Rightarrow> string option" where
  "matchIgnoreCase [] s = Some s"
| "matchIgnoreCase (p # ps) [] = None"
| "matchIgnoreCase (p # ps) (c # cs) =
     (if canonicalize p = canonicalize c then matchIgnoreCase ps cs else None)"

text \<open>An alternation \<open>p1|p2|...\<close> of literals at the start of the text: the first that matches.\<close>

fun matchAlternatives :: "string list \<Rightarrow> string \<Rightarrow> string option" where
  "matchAlternatives [] s = None"
| "matchAlternatives (p # ps) s =
     (case matchIgnoreCase p s of Some rest \<Rightarrow> Some rest | None \<Rightarrow> matchAlternatives ps s)"

text \<open>
  \<open>text.replace(/p1|p2/i, '')\<close>: the regular expression has no \<open>g\<close> flag, so only the
  leftmost match is removed; a text without a match is returned as it is.
\<close>

fun replaceFirst :: "string list \<Rightarrow> string \<Rightarrow> string" where
  "replaceFirst ps [] = []"
| "replaceFirst ps (c # cs) =
     (case matchAlternatives ps (c # cs) of
        Some rest \<Rightarrow> rest
      | None \<Rightarrow> c # replaceFirst ps cs)"

section \<open>The chat input (ChatInput, handleSubmit)\<close>

record chat_input =
  inputValue :: string
  isSubmitting :: bool
  urlDialogOpen :: bool
  url :: string

record toast =
  t_title :: string
  t_description :: string
  t_variant :: string

datatype exn = Error string

text \<open>
  The values one run of \<open>handleSubmit\<close> draws, in the order of the calls: the uuids and the
  clock of the user's \<open>addMessage\<close>, the date text, uuid and clock of
  \<open>addLearningSession\<close>, the clock of the temporary message, and the uuids and the clock
  of the assistant's \<open>addMessage\<close>.
\<close>

record submit_draws =
  userSessionId :: string
  userMessageId :: string
  userNow :: date
  learnDate :: string
  learnId :: string
  learnNow :: date
  tempNow :: date
  replySessionId :: string
  replyMessageId :: string
  replyNow :: date

record world =
  store :: app_state
  chatInput :: chat_input
  toasts :: "toast list"

text \<open>The alternatives of \<open>/aprenda isso|guarde isso/i\<close>.\<close>

definition triggerPattern :: "string list" where
  "triggerPattern = [''aprenda isso'', ''guarde isso'']"

text \<open>The learning request of \<open>handleSubmit\<close>, applied to the store.\<close>

definition learnFromInput :: "string \<Rightarrow> submit_draws \<Rightarrow> app_state \<Rightarrow> app_state" where
  "learnFromInput userInput d state =
     (if includesStr (toLowerCase userInput) ''aprenda isso'' \<or>
         includesStr (toLowerCase userInput) ''guarde isso'' then
        (let content = trim (replaceFirst triggerPattern userInput) in
         if content \<noteq> [] then
           addLearningSession (''Aprendizado '' @ learnDate d) content
             (''Conte'' @ [CHR 0xFA] @ ''do aprendido por comando direto'') None
             (learnId d) (learnNow d) state
         else state)
      else state)"

text \<open>
  The messages handed to the completion: \<open>sessions\<close> and \<open>currentSessionId\<close> are the
  values the component read from the store when it rendered, that is the store before
  this submission; the new text follows as a message with the id \<open>temp\<close>.
\<close>

definition completionContext :: "app_state \<Rightarrow> string \<Rightarrow> date \<Rightarrow> message list" where
  "completionContext state userInput now =
     (case find (\<lambda>s. Some (s_id s) = currentSessionId state) (sessions state) of
        None \<Rightarrow> []
      | Some s \<Rightarrow> s_messages s) @
     [\<lparr>m_id = ''temp'', m_role = User, m_content = userInput, m_timestamp = now\<rparr>]"

definition submitErrorToast :: toast where
  "submitErrorToast =
     \<lparr>t_title = ''Erro'',
      t_description = ''N'' @ [CHR 0xE3] @ ''o foi poss'' @ [CHR 0xED] @
                      ''vel processar sua mensagem. Tente novamente.'',
      t_variant = ''destructive''\<rparr>"

text \<open>
  \<open>handleSubmit\<close>. The awaited \<open>getChatCompletion(messages, model)\<close> is the parameter
  \<open>complete\<close>: it returns the reply or the error it throws. The \<open>catch\<close> block reports
  a toast, the \<open>finally\<close> block resets \<open>isSubmitting\<close>.
\<close>

definition handleSubmit ::
  "(message list \<Rightarrow> string \<Rightarrow> exn + string) \<Rightarrow> submit_draws \<Rightarrow> world \<Rightarrow> world" where
  "handleSubmit complete d w =
     (if trim (inputValue (chatInput w)) = [] \<or> isSubmitting (chatInput w) then w
      else
        (let userInput = trim (inputValue (chatInput w));
             snapshot = store w;
             s1 = addMessage userInput User (userSessionId d) (userMessageId d) (userNow d) snapshot;
             s2 = learnFromInput userInput d s1
         in case complete (completionContext snapshot userInput (tempNow d))
                          (preferredModel (userSettings snapshot)) of
              Inr response \<Rightarrow>
                w\<lparr>store := addMessage response Assistant (replySessionId d) (replyMessageId d)
                              (replyNow d) s2,
                  chatInput := (chatInput w)\<lparr>inputValue := [], isSubmitting := False\<rparr>\<rparr>
            | Inl e \<Rightarrow>
                w\<lparr>store := s2,
                  chatInput := (chatInput w)\<lparr>inputValue := [], isSubmitting := False\<rparr>,
                  toasts := toasts w @ [submitErrorToast]\<rparr>))"

section \<open>The contracts of the specification\<close>

datatype error = NotFoundError | ValidationError

definition sessionIds :: "app_state \<Rightarrow> string list" where
  "sessionIds state = map s_id (sessions state)"

definition learningIds :: "app_state \<Rightarrow> string list" where
  "learningIds state = map l_id (learningData state)"

text \<open>
  The specification's \<open>set_current\<close>: "fails with NotFoundError if session_id does not
  exist".
\<close>

definition spec_set_current :: "string \<Rightarrow> app_state \<Rightarrow> error + app_state" where
  "spec_set_current sessionId state =
     (if sessionId \<in> set (sessionIds state) then Inr (state\<lparr>currentSessionId := Some sessionId\<rparr>)
      else Inl NotFoundError)"

text \<open>
  The specification's Knowledge Store \<open>update\<close>: "merges provided fields, refreshes
  updated_at; fails with NotFoundError if absent".
\<close>

definition spec_update :: "string \<Rightarrow> learning_updates \<Rightarrow> date \<Rightarrow> app_state \<Rightarrow> error + app_state" where
  "spec_update ident updates now state =
     (if ident \<in> set (learningIds state) then
        Inr (state\<lparr>learningData := map (\<lambda>a. if l_id a = ident then mergeUpdates a updates now else a)
                                       (learningData state)\<rparr>)
      else Inl NotFoundError)"

text \<open>
  The specification's recent-history selection: "take the last short_term_turn_limit turns
  of the session (chronological order preserved)".
\<close>

definition spec_recent_history :: "nat \<Rightarrow> 'a list \<Rightarrow> 'a list" where
  "spec_recent_history short_term_turn_limit turns =
     drop (length turns - short_term_turn_limit) turns"

section \<open>Sequences of calls and well-formed stores\<close>

text \<open>One call of \<open>addMessage\<close> with the values it draws, and a sequence of such calls.\<close>

record append_call =
  c_content :: string
  c_role :: role
  c_newSessionId :: string
  c_messageId :: string
  c_now :: date

definition callMessage :: "append_call \<Rightarrow> message" where
  "callMessage c =
     \<lparr>m_id = c_messageId c, m_role = c_role c, m_content = c_content c, m_timestamp = c_now c\<rparr>"

fun addMessages :: "append_call list \<Rightarrow> app_state \<Rightarrow> app_state" where
  "addMessages [] state = state"
| "addMessages (c # cs) state =
     addMessages cs
       (addMessage (c_content c) (c_role c) (c_newSessionId c) (c_messageId c) (c_now c) state)"

text \<open>\<open>sessions.find(s => s.id === id)?.messages\<close>, as ChatContainer and ChatInput read it.\<close>

definition sessionMessages :: "string \<Rightarrow> app_state \<Rightarrow> message list option" where
  "sessionMessages ident state =
     (case find (\<lambda>s. s_id s = ident) (sessions state) of
        None \<Rightarrow> None
      | Some s \<Rightarrow> Some (s_messages s))"

text \<open>
  Session ids are values of \<open>uuidv4()\<close>: never empty, and never drawn twice. A store built
  by the actions from the initial one has distinct, non-empty session ids.
\<close>

definition wellFormed :: "app_state \<Rightarrow> bool" where
  "wellFormed state = (distinct (sessionIds state) \<and> [] \<notin> set (sessionIds state))"

text \<open>
  The session \<open>x\<close> after a sequence of appends: the messages of the calls follow the
  old ones, and \<open>updatedAt\<close> is the clock of the last call.
\<close>

definition appendTo :: "append_call list \<Rightarrow> session \<Rightarrow> session" where
  "appendTo calls x =
     (if calls = [] then x
      else x\<lparr>s_messages := s_messages x @ map callMessage calls,
             s_updatedAt := c_now (last calls)\<rparr>)"

text \<open>
  Every message of the store, session after session.
\<close>

definition allMessages :: "app_state \<Rightarrow> message list" where
  "allMessages state = concat (map s_messages (sessions state))"

text \<open>
  The values \<open>handleSubmit\<close> builds: the artifact of a learning request, the user's
  message as \<open>addMessage\<close> stores it, and the temporary message of the completion call.
\<close>

definition learned :: "string \<Rightarrow> submit_draws \<Rightarrow> learning_session" where
  "learned content d =
     \<lparr>l_id = learnId d, l_name = ''Aprendizado '' @ learnDate d,
      l_description = ''Conte'' @ [CHR 0xFA] @ ''do aprendido por comando direto'',
      l_content = content, l_source = None, l_createdAt = learnNow d, l_updatedAt = learnNow d\<rparr>"

definition userTurn :: "string \<Rightarrow> submit_draws \<Rightarrow> message" where
  "userTurn u d =
     \<lparr>m_id = userMessageId d, m_role = User, m_content = u, m_timestamp = userNow d\<rparr>"

definition tempMessage :: "string \<Rightarrow> date \<Rightarrow> message" where
  "tempMessage userInput now =
     \<lparr>m_id = ''temp'', m_role = User, m_content = userInput, m_timestamp = now\<rparr>"

section \<open>Example stores and inputs\<close>

text \<open>
  Stores built by the actions from the initial one, completions with a fixed outcome, and
  the chat input with a typed text.
\<close>

definition oneSession :: app_state where
  "oneSession = createNewSession ''first'' ''d1'' ''a'' 1 initialState"

definition twoSessions :: app_state where
  "twoSessions =
     createNewSession ''second'' ''d2'' ''b'' 2 (createNewSession ''first'' ''d1'' ''a'' 1 initialState)"

definition justCreated :: app_state where
  "justCreated = createNewSession ''n'' ''d'' ''a'' 100 initialState"

definition twoCalls :: "append_call list" where
  "twoCalls =
     [\<lparr>c_content = ''hi'', c_role = User, c_newSessionId = ''s1'', c_messageId = ''m1'', c_now = 1\<rparr>,
      \<lparr>c_content = ''hello'', c_role = Assistant, c_newSessionId = ''s2'', c_messageId = ''m2'',
        c_now = 2\<rparr>]"

definition twoTurns :: app_state where
  "twoTurns = addMessages twoCalls initialState"

definition oneArtifact :: app_state where
  "oneArtifact = addLearningSession ''n'' ''c'' ''d'' None ''a1'' 5 initialState"

definition renameUpdate :: learning_updates where
  "renameUpdate = \<lparr>u_name = Some ''m'', u_description = None, u_content = None,
                   u_source = None, u_updatedAt = None\<rparr>"

definition exampleDraws :: submit_draws where
  "exampleDraws =
     \<lparr>userSessionId = ''s1'', userMessageId = ''m1'', userNow = 10,
      learnDate = ''02/11/2026'', learnId = ''k1'', learnNow = 11, tempNow = 12,
      replySessionId = ''s2'', replyMessageId = ''m2'', replyNow = 13\<rparr>"

definition cannedReply :: "message list \<Rightarrow> string \<Rightarrow> exn + string" where
  "cannedReply messages modelId = Inr ''ok''"

definition agreeingReply :: "message list \<Rightarrow> string \<Rightarrow> exn + string" where
  "agreeingReply messages modelId = (if messages = [] then Inl (Error ''empty'') else Inr ''ok'')"

definition failingCompletion :: "message list \<Rightarrow> string \<Rightarrow> exn + string" where
  "failingCompletion messages modelId = Inl (Error ''timeout'')"

definition typed :: "string \<Rightarrow> app_state \<Rightarrow> world" where
  "typed text state =
     \<lparr>store = state,
      chatInput = \<lparr>inputValue = text, isSubmitting = False, urlDialogOpen = False, url = []\<rparr>,
      toasts = []\<rparr>"

definition skyWorld :: world where
  "skyWorld = typed ''  Aprenda isso: the sky is blue '' initialState"

definition greetWorld :: world where
  "greetWorld = typed ''how are you'' twoTurns"

definition stalledWorld :: world where
  "stalledWorld = typed ''guarde isso: 42'' oneSession"

definition exampleWorld :: world where
  "exampleWorld = typed ''aprenda isso: the sky is blue'' initialState"

text \<open>A store whose current-session reference names no session, and the same text typed there.\<close>

definition danglingStore :: app_state where
  "danglingStore = setCurrentSession ''ghost'' oneSession"

definition danglingWorld :: world where
  "danglingWorld = typed ''aprenda isso: the sky is blue'' danglingStore"

section \<open>Projections of the actions\<close>

lemma sessions_deleteSession:
  "sessions (deleteSession sessionId state) = filter (\<lambda>x. s_id x \<noteq> sessionId) (sessions state)"
  by (simp add: deleteSession_def)

lemma current_deleteSession_other:
  "currentSessionId state \<noteq> Some sessionId \<Longrightarrow>
   currentSessionId (deleteSession sessionId state) = currentSessionId state"
  by (simp add: deleteSession_def)

lemma current_deleteSession_current:
  "currentSessionId state = Some sessionId \<Longrightarrow>
   currentSessionId (deleteSession sessionId state) =
    (if length (sessions state) > 1 then
       (case find (\<lambda>s. s_id s \<noteq> sessionId) (sessions state) of
          None \<Rightarrow> None
        | Some s \<Rightarrow> (if s_id s = [] then None else Some (s_id s)))
     else None)"
  by (simp add: deleteSession_def)

lemma rest_deleteSession:
  "learningData (deleteSession sessionId state) = learningData state"
  "isLoading (deleteSession sessionId state) = isLoading state"
  "userSettings (deleteSession sessionId state) = userSettings state"
  by (simp_all add: deleteSession_def)

lemma sessions_addMessage_none:
  "noCurrentSession state \<Longrightarrow>
   sessions (addMessage content role sid mid now state) =
     \<lparr>s_id = sid, s_name = ''Nova conversa'',
      s_description = ''Conversa iniciada automaticamente'',
      s_messages = [\<lparr>m_id = mid, m_role = role, m_content = content, m_timestamp = now\<rparr>],
      s_createdAt = now, s_updatedAt = now\<rparr> # sessions state"
  by (simp add: addMessage_def)

lemma current_addMessage_none:
  "noCurrentSession state \<Longrightarrow>
   currentSessionId (addMessage content role sid mid now state) = Some sid"
  by (simp add: addMessage_def)

lemma sessions_addMessage_some:
  "\<not> noCurrentSession state \<Longrightarrow>
   sessions (addMessage content role sid mid now state) =
     map (\<lambda>session.
          if Some (s_id session) = currentSessionId state then
            session\<lparr>s_messages := s_messages session @
                       [\<lparr>m_id = mid, m_role = role, m_content = content, m_timestamp = now\<rparr>],
                    s_updatedAt := now\<rparr>
          else session) (sessions state)"
  by (simp add: addMessage_def)

lemma current_addMessage_some:
  "\<not> noCurrentSession state \<Longrightarrow>
   currentSessionId (addMessage content role sid mid now state) = currentSessionId state"
  by (simp add: addMessage_def)

lemma rest_addMessage:
  "learningData (addMessage content role sid mid now state) = learningData state"
  "isLoading (addMessage content role sid mid now state) = isLoading state"
  "userSettings (addMessage content role sid mid now state) = userSettings state"
  by (simp_all add: addMessage_def)

lemma noCurrentSession_iff:
  "noCurrentSession state \<longleftrightarrow> currentSessionId state = None \<or> currentSessionId state = Some []"
  by (simp add: noCurrentSession_def split: option.splits)

lemma sessions_clearMessages:
  "sessions (clearMessages sessionId now state) =
     map (\<lambda>session.
        if s_id session = sessionId then session\<lparr>s_messages := [], s_updatedAt := now\<rparr>
        else session) (sessions state)"
  by (simp add: clearMessages_def)

lemma rest_clearMessages:
  "currentSessionId (clearMessages sessionId now state) = currentSessionId state"
  "learningData (clearMessages sessionId now state) = learningData state"
  "isLoading (clearMessages sessionId now state) = isLoading state"
  "userSettings (clearMessages sessionId now state) = userSettings state"
  by (simp_all add: clearMessages_def)

lemma learningData_updateLearningSession:
  "learningData (updateLearningSession ident updates now state) =
     map (\<lambda>session. if l_id session = ident then mergeUpdates session updates now else session)
       (learningData state)"
  by (simp add: updateLearningSession_def)

section \<open>Well-formed stores\<close>

text \<open>
  The actions keep the session ids distinct and non-empty, as long as every drawn uuid is
  non-empty and new.
\<close>

lemma wellFormed_initialState: "wellFormed initialState"
  by (simp add: wellFormed_def sessionIds_def initialState_def)

lemma wellFormed_createNewSession:
  assumes "wellFormed state" "newSessionId \<noteq> []" "newSessionId \<notin> set (sessionIds state)"
  shows "wellFormed (createNewSession name description newSessionId now state)"
  using assms by (auto simp: wellFormed_def sessionIds_def createNewSession_def)

lemma wellFormed_addMessage:
  assumes "wellFormed state" "newSessionId \<noteq> []" "newSessionId \<notin> set (sessionIds state)"
  shows "wellFormed (addMessage content role newSessionId messageId now state)"
proof (cases "noCurrentSession state")
  case True
  with assms show ?thesis
    by (auto simp: wellFormed_def sessionIds_def sessions_addMessage_none)
next
  case False
  have "map s_id (sessions (addMessage content role newSessionId messageId now state)) =
        map s_id (sessions state)"
    by (simp add: sessions_addMessage_some[OF False] comp_def if_distrib cong: if_cong)
  with assms(1) show ?thesis by (simp add: wellFormed_def sessionIds_def)
qed

lemma wellFormed_deleteSession:
  assumes "wellFormed state"
  shows "wellFormed (deleteSession sessionId state)"
  using assms by (auto simp: wellFormed_def sessionIds_def sessions_deleteSession distinct_map_filter)

lemma wellFormed_clearMessages:
  assumes "wellFormed state"
  shows "wellFormed (clearMessages sessionId now state)"
proof -
  have "map s_id (sessions (clearMessages sessionId now state)) = map s_id (sessions state)"
    by (simp add: sessions_clearMessages comp_def if_distrib cong: if_cong)
  with assms show ?thesis by (simp add: wellFormed_def sessionIds_def)
qed

lemma wellFormed_setCurrentSession:
  "wellFormed state \<Longrightarrow> wellFormed (setCurrentSession sessionId state)"
  by (simp add: wellFormed_def sessionIds_def setCurrentSession_def)

lemma wellFormed_renameSession:
  assumes "wellFormed state"
  shows "wellFormed (renameSession sessionId name description now state)"
proof -
  have "map s_id (sessions (renameSession sessionId name description now state)) =
        map s_id (sessions state)"
    by (simp add: renameSession_def comp_def if_distrib cong: if_cong)
  with assms show ?thesis by (simp add: wellFormed_def sessionIds_def)
qed

lemma wellFormed_learning:
  "wellFormed state \<Longrightarrow> wellFormed (addLearningSession name content description source newId now state)"
  "wellFormed state \<Longrightarrow> wellFormed (deleteLearningSession ident state)"
  "wellFormed state \<Longrightarrow> wellFormed (updateLearningSession ident updates now state)"
  by (simp_all add: wellFormed_def sessionIds_def addLearningSession_def deleteLearningSession_def
      updateLearningSession_def)

section \<open>deleteSession\<close>

lemma find_other:
  "find (\<lambda>s. s_id s \<noteq> sid) xs = Some x \<Longrightarrow> x \<in> set xs \<and> s_id x \<noteq> sid"
  by (induction xs) (auto split: if_splits)

lemma find_none_all: "find (\<lambda>s. s_id s \<noteq> sid) xs = None \<Longrightarrow> \<forall>x\<in>set xs. s_id x = sid"
  by (induction xs) (auto split: if_splits)

lemma distinct_same_id:
  assumes "distinct (map s_id xs)" "\<forall>x\<in>set xs. s_id x = sid"
  shows "length xs \<le> 1"
proof (cases xs)
  case Nil thus ?thesis by simp
next
  case (Cons a as)
  have "as = []"
  proof (cases as)
    case Nil thus ?thesis .
  next
    case (Cons b bs)
    from assms(2) \<open>xs = a # as\<close> Cons have "s_id a = s_id b" by simp
    moreover from assms(1) \<open>xs = a # as\<close> Cons have "s_id a \<noteq> s_id b" by simp
    ultimately show ?thesis by simp
  qed
  with Cons show ?thesis by simp
qed

lemma deleteSession_current_some:
  assumes "currentSessionId state = Some sessionId"
      and "currentSessionId (deleteSession sessionId state) = Some c"
  shows "\<exists>x. find (\<lambda>s. s_id s \<noteq> sessionId) (sessions state) = Some x \<and> s_id x = c"
  using assms by (simp add: current_deleteSession_current split: if_splits option.splits)

text \<open>
  C4. In a well-formed store whose current session is \<open>sessionId\<close>,
  \<open>deleteSession sessionId\<close> with at least two sessions leaves a current session that
  is another one than the deleted one and is still in the store; with at most one session it
  leaves no current session; and in every case the current-session reference, when there
  is one, names a session of the store.
\<close>

theorem deleteSession_current:
  assumes cur: "currentSessionId state = Some sessionId"
      and wf: "wellFormed state"
  shows "(2 \<le> length (sessions state) \<longrightarrow>
            (\<exists>c. currentSessionId (deleteSession sessionId state) = Some c \<and> c \<noteq> sessionId
                 \<and> c \<in> set (sessionIds (deleteSession sessionId state))))
       \<and> (length (sessions state) \<le> 1 \<longrightarrow> currentSessionId (deleteSession sessionId state) = None)
       \<and> (\<forall>c. currentSessionId (deleteSession sessionId state) = Some c \<longrightarrow>
               c \<in> set (sessionIds (deleteSession sessionId state)))"
proof (intro conjI impI allI)
  assume len: "2 \<le> length (sessions state)"
  show "\<exists>c. currentSessionId (deleteSession sessionId state) = Some c \<and> c \<noteq> sessionId
                 \<and> c \<in> set (sessionIds (deleteSession sessionId state))"
  proof (cases "find (\<lambda>s. s_id s \<noteq> sessionId) (sessions state)")
    case None
    from wf have "distinct (map s_id (sessions state))"
      by (simp add: wellFormed_def sessionIds_def)
    from distinct_same_id[OF this find_none_all[OF None]] len show ?thesis by simp
  next
    case (Some x)
    from find_other[OF Some] have x: "x \<in> set (sessions state)" "s_id x \<noteq> sessionId" by auto
    from x(1) have "s_id x \<in> set (sessionIds state)" by (simp add: sessionIds_def)
    with wf have ne: "s_id x \<noteq> []" unfolding wellFormed_def by metis
    from len have len': "1 < length (sessions state)" by simp
    have "currentSessionId (deleteSession sessionId state) = Some (s_id x)"
      using len' Some ne by (simp add: current_deleteSession_current[OF cur])
    moreover have "s_id x \<in> set (sessionIds (deleteSession sessionId state))"
      using x by (simp add: sessions_deleteSession sessionIds_def)
    ultimately show ?thesis using x(2) by blast
  qed
next
  assume "length (sessions state) \<le> 1"
  then show "currentSessionId (deleteSession sessionId state) = None"
    by (simp add: current_deleteSession_current[OF cur])
next
  fix c assume c: "currentSessionId (deleteSession sessionId state) = Some c"
  from deleteSession_current_some[OF cur c]
  obtain x where fx: "find (\<lambda>s. s_id s \<noteq> sessionId) (sessions state) = Some x" and xc: "s_id x = c"
    by blast
  from find_other[OF fx] have "x \<in> set (filter (\<lambda>x. s_id x \<noteq> sessionId) (sessions state))" by simp
  with xc show "c \<in> set (sessionIds (deleteSession sessionId state))"
    unfolding sessionIds_def sessions_deleteSession by force
qed

theorem deleteSession_current_witness:
  "currentSessionId twoSessions = Some ''b'' \<and> wellFormed twoSessions
 \<and> 2 \<le> length (sessions twoSessions)
 \<and> (\<exists>c. currentSessionId (deleteSession ''b'' twoSessions) = Some c \<and> c \<noteq> ''b''
        \<and> c \<in> set (sessionIds (deleteSession ''b'' twoSessions)))
 \<and> currentSessionId oneSession = Some ''a'' \<and> wellFormed oneSession
 \<and> length (sessions oneSession) \<le> 1
 \<and> currentSessionId (deleteSession ''a'' oneSession) = None"
proof -
  have cur2: "currentSessionId twoSessions = Some ''b''"
    by (simp add: twoSessions_def createNewSession_def)
  have wf1: "wellFormed oneSession"
    unfolding oneSession_def
    by (rule wellFormed_createNewSession[OF wellFormed_initialState])
       (simp_all add: sessionIds_def initialState_def)
  have wf2: "wellFormed twoSessions"
    unfolding twoSessions_def
    by (rule wellFormed_createNewSession[OF wf1[unfolded oneSession_def]])
       (simp_all add: sessionIds_def initialState_def createNewSession_def)
  have len2: "2 \<le> length (sessions twoSessions)"
    by (simp add: twoSessions_def createNewSession_def)
  have cur1: "currentSessionId oneSession = Some ''a''"
    by (simp add: oneSession_def createNewSession_def)
  have len1: "length (sessions oneSession) \<le> 1"
    by (simp add: oneSession_def createNewSession_def initialState_def)
  from deleteSession_current[OF cur2 wf2] deleteSession_current[OF cur1 wf1]
    cur2 wf2 len2 cur1 wf1 len1
  show ?thesis by blast
qed

text \<open>
  C10. Deleting a session that is not the current one leaves the current-session reference
  as it is, keeps exactly the sessions with another id, each one as it was and in the same
  order, and changes nothing else of the store.
\<close>

theorem deleteSession_other:
  assumes "currentSessionId state \<noteq> Some sessionId"
  shows "currentSessionId (deleteSession sessionId state) = currentSessionId state
       \<and> sessions (deleteSession sessionId state) = filter (\<lambda>x. s_id x \<noteq> sessionId) (sessions state)
       \<and> (\<forall>x. x \<in> set (sessions (deleteSession sessionId state)) \<longleftrightarrow>
                x \<in> set (sessions state) \<and> s_id x \<noteq> sessionId)
       \<and> learningData (deleteSession sessionId state) = learningData state
       \<and> isLoading (deleteSession sessionId state) = isLoading state
       \<and> userSettings (deleteSession sessionId state) = userSettings state"
  by (simp add: sessions_deleteSession current_deleteSession_other[OF assms] rest_deleteSession)

theorem deleteSession_other_witness:
  "currentSessionId twoSessions \<noteq> Some ''a''
 \<and> currentSessionId (deleteSession ''a'' twoSessions) = Some ''b''
 \<and> map s_id (sessions (deleteSession ''a'' twoSessions)) = [''b'']
 \<and> sessions (deleteSession ''a'' twoSessions) = [sessions twoSessions ! 1]"
proof -
  have cur: "currentSessionId twoSessions = Some ''b''"
    by (simp add: twoSessions_def createNewSession_def)
  then have ne: "currentSessionId twoSessions \<noteq> Some ''a''" by simp
  have f: "filter (\<lambda>x. s_id x \<noteq> ''a'') (sessions twoSessions) = [sessions twoSessions ! 1]"
    by (simp add: twoSessions_def createNewSession_def initialState_def)
  have i: "s_id (sessions twoSessions ! 1) = ''b''"
    by (simp add: twoSessions_def createNewSession_def initialState_def)
  from deleteSession_other[OF ne] cur ne f i show ?thesis by simp
qed

section \<open>setCurrentSession\<close>

text \<open>
  C7, as the code has it. \<open>setCurrentSession\<close> never fails: it makes \<open>sessionId\<close>
  the current-session reference and changes nothing else, whether or not a session with
  that id exists. When the session exists, this is the outcome of the specified
  \<open>set_current\<close>.
\<close>

theorem setCurrentSession_total:
  "currentSessionId (setCurrentSession sessionId state) = Some sessionId
 \<and> sessions (setCurrentSession sessionId state) = sessions state
 \<and> learningData (setCurrentSession sessionId state) = learningData state
 \<and> isLoading (setCurrentSession sessionId state) = isLoading state
 \<and> userSettings (setCurrentSession sessionId state) = userSettings state
 \<and> (sessionId \<in> set (sessionIds state) \<longrightarrow>
      spec_set_current sessionId state = Inr (setCurrentSession sessionId state))"
  by (simp add: setCurrentSession_def spec_set_current_def)

theorem setCurrentSession_total_witness:
  "''a'' \<in> set (sessionIds twoSessions)
 \<and> currentSessionId (setCurrentSession ''a'' twoSessions) = Some ''a''
 \<and> spec_set_current ''a'' twoSessions = Inr (setCurrentSession ''a'' twoSessions)"
proof -
  have "''a'' \<in> set (sessionIds twoSessions)"
    by (simp add: twoSessions_def createNewSession_def initialState_def sessionIds_def)
  with setCurrentSession_total[where sessionId="''a''" and state=twoSessions] show ?thesis by simp
qed

text \<open>
  C7 as stated fails: on the initial store, which has no session, the specified
  \<open>set_current\<close> fails with \<open>NotFoundError\<close>, and \<open>setCurrentSession\<close> installs the
  reference to a session that is not there.
\<close>

theorem setCurrentSession_dangling:
  "spec_set_current ''ghost'' initialState = Inl NotFoundError
 \<and> Inr (setCurrentSession ''ghost'' initialState) \<noteq> spec_set_current ''ghost'' initialState
 \<and> currentSessionId (setCurrentSession ''ghost'' initialState) = Some ''ghost''
 \<and> ''ghost'' \<notin> set (sessionIds (setCurrentSession ''ghost'' initialState))"
  by (simp add: setCurrentSession_def spec_set_current_def sessionIds_def initialState_def)

section \<open>addMessage\<close>

text \<open>
  C6. With no current session, \<open>addMessage\<close> puts a new session named
  \<open>Nova conversa\<close>, holding the appended message alone, in front of the sessions and
  makes it the current one. With a current session, the reference and the number of
  sessions stay, and every session with another id is as it was. The learning data, the loading flag
  and the settings are never touched.
\<close>

theorem addMessage_auto_create:
  "(currentSessionId state = None \<longrightarrow>
      sessions (addMessage content role newSessionId messageId now state) =
        \<lparr>s_id = newSessionId, s_name = ''Nova conversa'',
         s_description = ''Conversa iniciada automaticamente'',
         s_messages = [\<lparr>m_id = messageId, m_role = role, m_content = content,
                        m_timestamp = now\<rparr>],
         s_createdAt = now, s_updatedAt = now\<rparr> # sessions state
    \<and> currentSessionId (addMessage content role newSessionId messageId now state) =
        Some newSessionId)
 \<and> (\<not> noCurrentSession state \<longrightarrow>
      currentSessionId (addMessage content role newSessionId messageId now state) =
        currentSessionId state
    \<and> length (sessions (addMessage content role newSessionId messageId now state)) =
        length (sessions state)
    \<and> (\<forall>i < length (sessions state).
          Some (s_id (sessions state ! i)) \<noteq> currentSessionId state \<longrightarrow>
          sessions (addMessage content role newSessionId messageId now state) ! i =
            sessions state ! i))
 \<and> learningData (addMessage content role newSessionId messageId now state) = learningData state
 \<and> isLoading (addMessage content role newSessionId messageId now state) = isLoading state
 \<and> userSettings (addMessage content role newSessionId messageId now state) = userSettings state"
proof (intro conjI impI)
  assume "currentSessionId state = None"
  then have n: "noCurrentSession state" by (simp add: noCurrentSession_iff)
  show "sessions (addMessage content role newSessionId messageId now state) =
        \<lparr>s_id = newSessionId, s_name = ''Nova conversa'',
         s_description = ''Conversa iniciada automaticamente'',
         s_messages = [\<lparr>m_id = messageId, m_role = role, m_content = content,
                        m_timestamp = now\<rparr>],
         s_createdAt = now, s_updatedAt = now\<rparr> # sessions state"
    by (rule sessions_addMessage_none[OF n])
  show "currentSessionId (addMessage content role newSessionId messageId now state) =
        Some newSessionId"
    by (rule current_addMessage_none[OF n])
next
  assume c: "\<not> noCurrentSession state"
  show "currentSessionId (addMessage content role newSessionId messageId now state) =
        currentSessionId state"
    by (rule current_addMessage_some[OF c])
  show "length (sessions (addMessage content role newSessionId messageId now state)) =
        length (sessions state)"
    by (simp add: sessions_addMessage_some[OF c])
  show "\<forall>i < length (sessions state).
          Some (s_id (sessions state ! i)) \<noteq> currentSessionId state \<longrightarrow>
          sessions (addMessage content role newSessionId messageId now state) ! i =
            sessions state ! i"
    by (simp add: sessions_addMessage_some[OF c])
qed (simp_all add: rest_addMessage)

theorem addMessage_auto_create_witness:
  "currentSessionId initialState = None
 \<and> map s_name (sessions (addMessage ''hi'' User ''s1'' ''m1'' 1 initialState)) = [''Nova conversa'']
 \<and> map (map m_content \<circ> s_messages) (sessions (addMessage ''hi'' User ''s1'' ''m1'' 1 initialState)) =
      [[''hi'']]
 \<and> currentSessionId (addMessage ''hi'' User ''s1'' ''m1'' 1 initialState) = Some ''s1''
 \<and> \<not> noCurrentSession twoSessions
 \<and> Some (s_id (sessions twoSessions ! 0)) \<noteq> currentSessionId twoSessions
 \<and> sessions (addMessage ''hi'' User ''s1'' ''m1'' 1 twoSessions) ! 0 = sessions twoSessions ! 0
 \<and> currentSessionId (addMessage ''hi'' User ''s1'' ''m1'' 1 twoSessions) = Some ''b''"
proof -
  have none: "currentSessionId initialState = None" "sessions initialState = []"
    by (simp_all add: initialState_def)
  have cur: "\<not> noCurrentSession twoSessions" "currentSessionId twoSessions = Some ''b''"
    by (simp_all add: twoSessions_def createNewSession_def noCurrentSession_def)
  have other: "Some (s_id (sessions twoSessions ! 0)) \<noteq> currentSessionId twoSessions"
              "0 < length (sessions twoSessions)"
    by (simp_all add: twoSessions_def createNewSession_def initialState_def)
  from addMessage_auto_create[where state=initialState and content="''hi''" and role=User
         and newSessionId="''s1''" and messageId="''m1''" and now=1]
       addMessage_auto_create[where state=twoSessions and content="''hi''" and role=User
         and newSessionId="''s1''" and messageId="''m1''" and now=1]
       none cur other
  show ?thesis by simp
qed

lemma appendTo_Nil: "appendTo [] x = x"
  by (simp add: appendTo_def)

lemma appendTo_Cons:
  "appendTo cs (x\<lparr>s_messages := s_messages x @ [callMessage c], s_updatedAt := c_now c\<rparr>) =
   appendTo (c # cs) x"
  by (simp add: appendTo_def)

lemma s_id_appendTo: "s_id (appendTo calls x) = s_id x"
  by (simp add: appendTo_def)

lemma s_messages_appendTo: "s_messages (appendTo calls x) = s_messages x @ map callMessage calls"
  by (simp add: appendTo_def)

lemma addMessage_call:
  "\<not> noCurrentSession state \<Longrightarrow>
   sessions (addMessage (c_content c) (c_role c) (c_newSessionId c) (c_messageId c) (c_now c) state) =
     map (\<lambda>x. if Some (s_id x) = currentSessionId state then
                 x\<lparr>s_messages := s_messages x @ [callMessage c], s_updatedAt := c_now c\<rparr>
               else x) (sessions state)"
  by (simp add: sessions_addMessage_some callMessage_def)

lemma noCurrentSession_addMessage:
  "\<not> noCurrentSession state \<Longrightarrow> \<not> noCurrentSession (addMessage content role sid mid now state)"
  by (simp add: noCurrentSession_def current_addMessage_some)

lemma addMessages_some:
  "\<not> noCurrentSession state \<Longrightarrow>
   sessions (addMessages calls state) =
     map (\<lambda>x. if Some (s_id x) = currentSessionId state then appendTo calls x else x)
         (sessions state)
   \<and> currentSessionId (addMessages calls state) = currentSessionId state"
proof (induction calls arbitrary: state)
  case Nil
  show ?case by (simp add: appendTo_Nil cong: if_cong)
next
  case (Cons c cs)
  let ?s1 = "addMessage (c_content c) (c_role c) (c_newSessionId c) (c_messageId c) (c_now c) state"
  have n1: "\<not> noCurrentSession ?s1" by (rule noCurrentSession_addMessage[OF Cons.prems])
  have cur1: "currentSessionId ?s1 = currentSessionId state"
    by (rule current_addMessage_some[OF Cons.prems])
  have "sessions (addMessages (c # cs) state) =
        map (\<lambda>x. if Some (s_id x) = currentSessionId state then appendTo cs x else x)
          (map (\<lambda>x. if Some (s_id x) = currentSessionId state then
                 x\<lparr>s_messages := s_messages x @ [callMessage c], s_updatedAt := c_now c\<rparr>
               else x) (sessions state))"
    using Cons.IH[OF n1] by (simp add: cur1 addMessage_call[OF Cons.prems])
  also have "\<dots> = map (\<lambda>x. if Some (s_id x) = currentSessionId state then appendTo (c # cs) x else x)
                       (sessions state)"
    by (simp add: appendTo_Cons s_id_appendTo cong: if_cong)
  finally show ?case using Cons.IH[OF n1] by (simp add: cur1)
qed

lemma find_map_id:
  assumes "\<And>x. s_id (f x) = s_id x"
  shows "find (\<lambda>s. s_id s = c) (map f xs) = map_option f (find (\<lambda>s. s_id s = c) xs)"
  by (induction xs) (simp_all add: assms)

lemma sessionMessages_addMessages:
  assumes n: "currentSessionId state = Some c" "c \<noteq> []"
      and old: "sessionMessages c state = Some old"
  shows "sessionMessages c (addMessages calls state) = Some (old @ map callMessage calls)"
proof -
  from n have nn: "\<not> noCurrentSession state" by (simp add: noCurrentSession_def)
  from old obtain x where x: "find (\<lambda>s. s_id s = c) (sessions state) = Some x" "s_messages x = old"
    by (auto simp: sessionMessages_def split: option.splits)
  then have "s_id x = c" by (auto simp: find_Some_iff)
  have "find (\<lambda>s. s_id s = c)
          (map (\<lambda>x. if Some (s_id x) = currentSessionId state then appendTo calls x else x)
               (sessions state)) =
        map_option (\<lambda>x. if Some (s_id x) = currentSessionId state then appendTo calls x else x)
          (find (\<lambda>s. s_id s = c) (sessions state))"
    by (rule find_map_id) (simp add: s_id_appendTo)
  then show ?thesis
    using addMessages_some[OF nn, of calls] x \<open>s_id x = c\<close> n
    by (simp add: sessionMessages_def s_messages_appendTo)
qed

lemma sessionMessages_first_call:
  assumes "noCurrentSession state"
  shows "sessionMessages (c_newSessionId call)
           (addMessage (c_content call) (c_role call) (c_newSessionId call) (c_messageId call)
              (c_now call) state) = Some [callMessage call]"
  by (simp add: sessionMessages_def sessions_addMessage_none[OF assms] callMessage_def)

text \<open>
  C5. A sequence of \<open>addMessage\<close> calls on a store whose current session exists leaves
  that session with its old messages followed by the messages of the calls, in the order of
  the calls: the length grows by the number of calls. Started without a current session
  (each drawn session id being non-empty), the first call creates the session and the
  session then holds exactly the messages of the calls, in their order.
\<close>

theorem addMessages_append_only:
  "(currentSessionId state = Some c \<and> c \<noteq> [] \<and> sessionMessages c state = Some old \<longrightarrow>
      sessionMessages c (addMessages calls state) = Some (old @ map callMessage calls)
    \<and> map_option length (sessionMessages c (addMessages calls state)) =
        Some (length old + length calls))
 \<and> (noCurrentSession state \<and> c_newSessionId call \<noteq> [] \<longrightarrow>
      sessionMessages (c_newSessionId call) (addMessages (call # calls) state) =
        Some (map callMessage (call # calls))
    \<and> map_option length (sessionMessages (c_newSessionId call) (addMessages (call # calls) state)) =
        Some (length (call # calls)))"
proof (intro conjI impI)
  assume a: "currentSessionId state = Some c \<and> c \<noteq> [] \<and> sessionMessages c state = Some old"
  then show 1: "sessionMessages c (addMessages calls state) = Some (old @ map callMessage calls)"
    by (intro sessionMessages_addMessages) simp_all
  show "map_option length (sessionMessages c (addMessages calls state)) =
        Some (length old + length calls)"
    unfolding 1 by simp
next
  assume b: "noCurrentSession state \<and> c_newSessionId call \<noteq> []"
  let ?s1 = "addMessage (c_content call) (c_role call) (c_newSessionId call) (c_messageId call)
              (c_now call) state"
  from b have cur: "currentSessionId ?s1 = Some (c_newSessionId call)"
    by (simp add: current_addMessage_none)
  from b have old: "sessionMessages (c_newSessionId call) ?s1 = Some [callMessage call]"
    by (simp add: sessionMessages_first_call)
  from b have ne: "c_newSessionId call \<noteq> []" by simp
  from sessionMessages_addMessages[OF cur ne old, of calls]
  show 2: "sessionMessages (c_newSessionId call) (addMessages (call # calls) state) =
        Some (map callMessage (call # calls))"
    by simp
  show "map_option length (sessionMessages (c_newSessionId call) (addMessages (call # calls) state)) =
        Some (length (call # calls))"
    unfolding 2 by simp
qed

theorem addMessages_append_only_witness:
  "currentSessionId oneSession = Some ''a'' \<and> ''a'' \<noteq> []
 \<and> sessionMessages ''a'' oneSession = Some []
 \<and> sessionMessages ''a'' (addMessages twoCalls oneSession) = Some (map callMessage twoCalls)
 \<and> map_option length (sessionMessages ''a'' (addMessages twoCalls oneSession)) = Some 2
 \<and> noCurrentSession initialState
 \<and> sessionMessages ''s1'' (addMessages twoCalls initialState) = Some (map callMessage twoCalls)"
proof -
  have cur: "currentSessionId oneSession = Some ''a''"
    by (simp add: oneSession_def createNewSession_def)
  have old: "sessionMessages ''a'' oneSession = Some []"
    by (simp add: oneSession_def createNewSession_def initialState_def sessionMessages_def)
  have n: "noCurrentSession initialState" by (simp add: noCurrentSession_def initialState_def)
  have tc: "twoCalls = hd twoCalls # tl twoCalls" "c_newSessionId (hd twoCalls) = ''s1''"
           "length twoCalls = 2"
    by (simp_all add: twoCalls_def)
  from addMessages_append_only[where state=oneSession and c="''a''" and old="[]" and calls=twoCalls]
       addMessages_append_only[where state=initialState and call="hd twoCalls" and calls="tl twoCalls"]
       cur old n tc
  show ?thesis by simp
qed

section \<open>clearMessages\<close>

text \<open>
  C9, as the code has it. \<open>clearMessages sessionId\<close> empties the messages of every
  session with that id and sets its \<open>updatedAt\<close> to the clock, which is later than the
  old value exactly when the clock is; the other sessions are as they were; and clearing
  again leaves the same, empty, messages.
\<close>

theorem clearMessages_empties:
  "length (sessions (clearMessages sessionId now state)) = length (sessions state)
 \<and> (\<forall>i < length (sessions state).
       (s_id (sessions state ! i) = sessionId \<longrightarrow>
          s_messages (sessions (clearMessages sessionId now state) ! i) = []
        \<and> s_updatedAt (sessions (clearMessages sessionId now state) ! i) = now
        \<and> (s_updatedAt (sessions state ! i) < s_updatedAt (sessions (clearMessages sessionId now state) ! i)
             \<longleftrightarrow> s_updatedAt (sessions state ! i) < now))
     \<and> (s_id (sessions state ! i) \<noteq> sessionId \<longrightarrow>
          sessions (clearMessages sessionId now state) ! i = sessions state ! i))
 \<and> map s_messages (sessions (clearMessages sessionId now' (clearMessages sessionId now state))) =
     map s_messages (sessions (clearMessages sessionId now state))"
proof (intro conjI)
  show "map s_messages (sessions (clearMessages sessionId now' (clearMessages sessionId now state))) =
     map s_messages (sessions (clearMessages sessionId now state))"
    by (simp add: sessions_clearMessages)
qed (simp_all add: sessions_clearMessages)

theorem clearMessages_empties_witness:
  "s_id (sessions twoTurns ! 0) = ''s1'' \<and> 0 < length (sessions twoTurns)
 \<and> s_messages (sessions twoTurns ! 0) \<noteq> []
 \<and> s_messages (sessions (clearMessages ''s1'' 7 twoTurns) ! 0) = []
 \<and> s_updatedAt (sessions (clearMessages ''s1'' 7 twoTurns) ! 0) = 7
 \<and> s_updatedAt (sessions twoTurns ! 0) < s_updatedAt (sessions (clearMessages ''s1'' 7 twoTurns) ! 0)
 \<and> map s_messages (sessions (clearMessages ''s1'' 8 (clearMessages ''s1'' 7 twoTurns))) =
      map s_messages (sessions (clearMessages ''s1'' 7 twoTurns))"
proof -
  have f: "s_id (sessions twoTurns ! 0) = ''s1''" "0 < length (sessions twoTurns)"
          "s_messages (sessions twoTurns ! 0) \<noteq> []" "s_updatedAt (sessions twoTurns ! 0) = 2"
    by (simp_all add: twoTurns_def twoCalls_def addMessage_def noCurrentSession_def initialState_def)
  from clearMessages_empties[where sessionId="''s1''" and now=7 and state=twoTurns and now'=8] f show ?thesis by simp
qed

text \<open>
  C9 as stated fails: a session cleared in the millisecond it was created in keeps its
  \<open>updatedAt\<close>, which does not strictly increase.
\<close>

theorem clearMessages_not_strict:
  "\<not> s_updatedAt (hd (sessions justCreated)) <
       s_updatedAt (hd (sessions (clearMessages ''a'' 100 justCreated)))"
  by (simp add: justCreated_def createNewSession_def initialState_def sessions_clearMessages)

section \<open>updateLearningSession\<close>

lemma map_unchanged: "\<forall>x\<in>set xs. \<not> P x \<Longrightarrow> map (\<lambda>x. if P x then f x else x) xs = xs"
  by (induction xs) simp_all

lemma updateLearningSession_absent:
  assumes "ident \<notin> set (learningIds state)"
  shows "updateLearningSession ident updates now state = state"
proof -
  from assms have "\<forall>x\<in>set (learningData state). \<not> l_id x = ident"
    by (auto simp: learningIds_def)
  from map_unchanged[OF this]
  show ?thesis by (simp add: updateLearningSession_def)
qed

text \<open>
  C8, as the code has it. \<open>updateLearningSession\<close> merges the given fields into every
  artifact with the id and sets its \<open>updatedAt\<close> to the clock, keeping its id and
  \<open>createdAt\<close>; the other artifacts are as they were. When an artifact with the id
  exists this is the outcome of the specified \<open>update\<close>; when none exists the store is
  returned unchanged.
\<close>

theorem updateLearningSession_merges:
  "length (learningData (updateLearningSession ident updates now state)) =
     length (learningData state)
 \<and> (\<forall>i < length (learningData state).
       (l_id (learningData state ! i) = ident \<longrightarrow>
          learningData (updateLearningSession ident updates now state) ! i =
            mergeUpdates (learningData state ! i) updates now
        \<and> l_updatedAt (learningData (updateLearningSession ident updates now state) ! i) = now
        \<and> l_id (learningData (updateLearningSession ident updates now state) ! i) = ident
        \<and> l_createdAt (learningData (updateLearningSession ident updates now state) ! i) =
            l_createdAt (learningData state ! i))
     \<and> (l_id (learningData state ! i) \<noteq> ident \<longrightarrow>
          learningData (updateLearningSession ident updates now state) ! i =
            learningData state ! i))
 \<and> (ident \<in> set (learningIds state) \<longrightarrow>
       spec_update ident updates now state = Inr (updateLearningSession ident updates now state))
 \<and> (ident \<notin> set (learningIds state) \<longrightarrow>
       updateLearningSession ident updates now state = state)"
proof (intro conjI impI)
  assume "ident \<notin> set (learningIds state)"
  then show "updateLearningSession ident updates now state = state"
    by (rule updateLearningSession_absent)
next
  assume "ident \<in> set (learningIds state)"
  then show "spec_update ident updates now state = Inr (updateLearningSession ident updates now state)"
    by (simp add: spec_update_def updateLearningSession_def)
qed (simp_all add: learningData_updateLearningSession mergeUpdates_def)

theorem updateLearningSession_merges_witness:
  "''a1'' \<in> set (learningIds oneArtifact)
 \<and> map l_name (learningData (updateLearningSession ''a1'' renameUpdate 9 oneArtifact)) = [''m'']
 \<and> map l_content (learningData (updateLearningSession ''a1'' renameUpdate 9 oneArtifact)) = [''c'']
 \<and> map l_updatedAt (learningData (updateLearningSession ''a1'' renameUpdate 9 oneArtifact)) = [9]
 \<and> spec_update ''a1'' renameUpdate 9 oneArtifact =
      Inr (updateLearningSession ''a1'' renameUpdate 9 oneArtifact)
 \<and> ''zz'' \<notin> set (learningIds oneArtifact)
 \<and> updateLearningSession ''zz'' renameUpdate 9 oneArtifact = oneArtifact"
proof -
  have ids: "learningIds oneArtifact = [''a1'']"
    by (simp add: oneArtifact_def addLearningSession_def initialState_def learningIds_def)
  have one: "\<exists>a. learningData oneArtifact = [a] \<and> l_id a = ''a1'' \<and> l_content a = ''c''"
    by (simp add: oneArtifact_def addLearningSession_def initialState_def)
  then obtain a where a: "learningData oneArtifact = [a]" "l_id a = ''a1''" "l_content a = ''c''"
    by blast
  have m: "l_name (mergeUpdates a renameUpdate 9) = ''m''"
          "l_content (mergeUpdates a renameUpdate 9) = l_content a"
          "l_updatedAt (mergeUpdates a renameUpdate 9) = 9"
    by (simp_all add: mergeUpdates_def renameUpdate_def)
  from updateLearningSession_merges[where ident="''a1''" and updates=renameUpdate and now=9
         and state=oneArtifact]
  have 1: "length (learningData (updateLearningSession ''a1'' renameUpdate 9 oneArtifact)) = 1"
    and 2: "learningData (updateLearningSession ''a1'' renameUpdate 9 oneArtifact) ! 0 =
            mergeUpdates a renameUpdate 9"
    and 3: "spec_update ''a1'' renameUpdate 9 oneArtifact =
      Inr (updateLearningSession ''a1'' renameUpdate 9 oneArtifact)"
    using a ids by simp_all
  from 1 2 have l: "learningData (updateLearningSession ''a1'' renameUpdate 9 oneArtifact) =
                    [mergeUpdates a renameUpdate 9]"
    by (cases "learningData (updateLearningSession ''a1'' renameUpdate 9 oneArtifact)") simp_all
  from updateLearningSession_merges[where ident="''zz''" and updates=renameUpdate and now=9
         and state=oneArtifact] ids
  have 4: "updateLearningSession ''zz'' renameUpdate 9 oneArtifact = oneArtifact" by simp
  from l m a 3 4 ids show ?thesis by simp
qed

text \<open>
  C8 as stated fails: for an id that no artifact has, the specified \<open>update\<close> fails
  with \<open>NotFoundError\<close>, and \<open>updateLearningSession\<close> returns the store as it was.
\<close>

theorem updateLearningSession_silent:
  "''zz'' \<notin> set (learningIds oneArtifact)
 \<and> spec_update ''zz'' renameUpdate 9 oneArtifact = Inl NotFoundError
 \<and> updateLearningSession ''zz'' renameUpdate 9 oneArtifact = oneArtifact
 \<and> Inr (updateLearningSession ''zz'' renameUpdate 9 oneArtifact) \<noteq>
     spec_update ''zz'' renameUpdate 9 oneArtifact"
  by (simp add: spec_update_def updateLearningSession_def oneArtifact_def addLearningSession_def
      initialState_def learningIds_def)

section \<open>handleSubmit\<close>

lemma sessions_learnFromInput: "sessions (learnFromInput u d state) = sessions state"
  by (simp add: learnFromInput_def addLearningSession_def Let_def)

lemma current_learnFromInput: "currentSessionId (learnFromInput u d state) = currentSessionId state"
  by (simp add: learnFromInput_def addLearningSession_def Let_def)

lemma learningData_learnFromInput_hit:
  assumes "includesStr (toLowerCase u) ''aprenda isso'' \<or> includesStr (toLowerCase u) ''guarde isso''"
      and "trim (replaceFirst triggerPattern u) \<noteq> []"
  shows "learningData (learnFromInput u d state) =
           learningData state @ [learned (trim (replaceFirst triggerPattern u)) d]"
  using assms by (simp add: learnFromInput_def addLearningSession_def Let_def learned_def)

lemma learningData_learnFromInput_cases:
  "learningData (learnFromInput u d state) = learningData state \<or>
   learningData (learnFromInput u d state) =
     learningData state @ [learned (trim (replaceFirst triggerPattern u)) d]"
  by (simp add: learnFromInput_def addLearningSession_def Let_def learned_def)

lemma learningData_learnFromInput_addMessage:
  "learningData (learnFromInput u d (addMessage content role sid mid now state)) =
   learningData (learnFromInput u d state)"
  by (simp add: learnFromInput_def addLearningSession_def Let_def rest_addMessage)

lemma store_handleSubmit_fail:
  assumes "trim (inputValue (chatInput w)) \<noteq> []" "\<not> isSubmitting (chatInput w)"
      and "complete (completionContext (store w) (trim (inputValue (chatInput w))) (tempNow d))
             (preferredModel (userSettings (store w))) = Inl e"
  shows "handleSubmit complete d w =
           w\<lparr>store := learnFromInput (trim (inputValue (chatInput w))) d
                        (addMessage (trim (inputValue (chatInput w))) User (userSessionId d)
                           (userMessageId d) (userNow d) (store w)),
             chatInput := (chatInput w)\<lparr>inputValue := [], isSubmitting := False\<rparr>,
             toasts := toasts w @ [submitErrorToast]\<rparr>"
  using assms by (simp add: handleSubmit_def Let_def)

lemma store_handleSubmit_ok:
  assumes "trim (inputValue (chatInput w)) \<noteq> []" "\<not> isSubmitting (chatInput w)"
      and "complete (completionContext (store w) (trim (inputValue (chatInput w))) (tempNow d))
             (preferredModel (userSettings (store w))) = Inr r"
  shows "handleSubmit complete d w =
           w\<lparr>store := addMessage r Assistant (replySessionId d) (replyMessageId d) (replyNow d)
                        (learnFromInput (trim (inputValue (chatInput w))) d
                          (addMessage (trim (inputValue (chatInput w))) User (userSessionId d)
                             (userMessageId d) (userNow d) (store w))),
             chatInput := (chatInput w)\<lparr>inputValue := [], isSubmitting := False\<rparr>\<rparr>"
  using assms by (simp add: handleSubmit_def Let_def)

lemma handleSubmit_cases:
  assumes "trim (inputValue (chatInput w)) \<noteq> []" "\<not> isSubmitting (chatInput w)"
  shows "store (handleSubmit complete d w) =
           learnFromInput (trim (inputValue (chatInput w))) d
             (addMessage (trim (inputValue (chatInput w))) User (userSessionId d)
                (userMessageId d) (userNow d) (store w))
       \<or> (\<exists>r. store (handleSubmit complete d w) =
             addMessage r Assistant (replySessionId d) (replyMessageId d) (replyNow d)
               (learnFromInput (trim (inputValue (chatInput w))) d
                 (addMessage (trim (inputValue (chatInput w))) User (userSessionId d)
                    (userMessageId d) (userNow d) (store w))))"
proof (cases "complete (completionContext (store w) (trim (inputValue (chatInput w))) (tempNow d))
             (preferredModel (userSettings (store w)))")
  case (Inl e)
  from store_handleSubmit_fail[where w=w and complete=complete and d=d and e=e] assms Inl
  show ?thesis by simp
next
  case (Inr r)
  from store_handleSubmit_ok[where w=w and complete=complete and d=d and r=r] assms Inr
  have "store (handleSubmit complete d w) =
             addMessage r Assistant (replySessionId d) (replyMessageId d) (replyNow d)
               (learnFromInput (trim (inputValue (chatInput w))) d
                 (addMessage (trim (inputValue (chatInput w))) User (userSessionId d)
                    (userMessageId d) (userNow d) (store w)))" by simp
  then show ?thesis by blast
qed

lemma handleSubmit_cong:
  assumes "complete (completionContext (store w) (trim (inputValue (chatInput w))) (tempNow d))
             (preferredModel (userSettings (store w))) =
           complete' (completionContext (store w) (trim (inputValue (chatInput w))) (tempNow d))
             (preferredModel (userSettings (store w)))"
  shows "handleSubmit complete d w = handleSubmit complete' d w"
  using assms by (simp add: handleSubmit_def Let_def)

lemma concat_map_lower:
  assumes "\<And>x. set (s_messages x) \<subseteq> set (s_messages (f x))"
  shows "set (concat (map s_messages xs)) \<subseteq> set (concat (map s_messages (map f xs)))"
proof (induction xs)
  case Nil
  show ?case by simp
next
  case (Cons a xs)
  from assms[of a] Cons show ?case by auto
qed

lemma concat_map_member:
  assumes "x \<in> set xs" "m \<in> set (s_messages (f x))"
  shows "m \<in> set (concat (map s_messages (map f xs)))"
  using assms by (induction xs) auto

lemma allMessages_addMessage_upper:
  "set (allMessages (addMessage content role sid mid now state)) \<subseteq>
     insert \<lparr>m_id = mid, m_role = role, m_content = content, m_timestamp = now\<rparr>
       (set (allMessages state))"
proof (cases "noCurrentSession state")
  case True
  then show ?thesis by (auto simp: allMessages_def sessions_addMessage_none)
next
  case False
  then show ?thesis by (auto simp: allMessages_def sessions_addMessage_some split: if_splits)
qed

lemma allMessages_addMessage_lower:
  "set (allMessages state) \<subseteq> set (allMessages (addMessage content role sid mid now state))"
proof (cases "noCurrentSession state")
  case True
  then show ?thesis by (auto simp: allMessages_def sessions_addMessage_none)
next
  case False
  show ?thesis
    unfolding allMessages_def sessions_addMessage_some[OF False]
    by (rule concat_map_lower) auto
qed

lemma allMessages_addMessage_records:
  assumes "noCurrentSession state \<or> (\<exists>x\<in>set (sessions state). Some (s_id x) = currentSessionId state)"
  shows "\<lparr>m_id = mid, m_role = role, m_content = content, m_timestamp = now\<rparr>
           \<in> set (allMessages (addMessage content role sid mid now state))"
proof (cases "noCurrentSession state")
  case True
  then show ?thesis by (simp add: allMessages_def sessions_addMessage_none)
next
  case False
  with assms obtain x where x: "x \<in> set (sessions state)" "Some (s_id x) = currentSessionId state"
    by blast
  show ?thesis
    unfolding allMessages_def sessions_addMessage_some[OF False]
    by (rule concat_map_member[OF x(1)]) (simp add: x(2))
qed

lemma allMessages_learnFromInput: "allMessages (learnFromInput u d state) = allMessages state"
  by (simp add: allMessages_def sessions_learnFromInput)

lemma find_False: "find (\<lambda>s. False) xs = None"
  by (induction xs) simp_all

lemma matchIgnoreCase_self: "matchIgnoreCase p (p @ rest) = Some rest"
  by (induction p) simp_all

lemma replaceFirst_aprenda: "replaceFirst triggerPattern (''aprenda isso'' @ rest) = rest"
  by (simp add: triggerPattern_def)

lemma canonicalize_a_g: "canonicalize CHR ''a'' \<noteq> canonicalize CHR ''g''"
  by (simp add: canonicalize_def)

lemma replaceFirst_guarde: "replaceFirst triggerPattern (''guarde isso'' @ rest) = rest"
  by (simp add: triggerPattern_def canonicalize_a_g)

text \<open>
  C3. When the completion fails on a submitted text, the store is the one reached after
  the user's \<open>addMessage\<close> and the learning request: the sessions are those after the
  user's message was added (which is among the messages whenever there is no current
  session or the current session exists), no assistant message was added, the learning
  data holds what the learning request put there, and the failure is reported as a toast.
\<close>

theorem handleSubmit_completion_fails:
  assumes u: "u = trim (inputValue (chatInput w))"
      and ne: "u \<noteq> []"
      and idle: "\<not> isSubmitting (chatInput w)"
      and fail: "complete (completionContext (store w) u (tempNow d))
                   (preferredModel (userSettings (store w))) = Inl e"
  shows "store (handleSubmit complete d w) =
           learnFromInput u d
             (addMessage u User (userSessionId d) (userMessageId d) (userNow d) (store w))
       \<and> sessions (store (handleSubmit complete d w)) =
           sessions (addMessage u User (userSessionId d) (userMessageId d) (userNow d) (store w))
       \<and> (noCurrentSession (store w) \<or>
            (\<exists>x\<in>set (sessions (store w)). Some (s_id x) = currentSessionId (store w)) \<longrightarrow>
            userTurn u d \<in> set (allMessages (store (handleSubmit complete d w))))
       \<and> (\<forall>m\<in>set (allMessages (store (handleSubmit complete d w))).
            m_role m = Assistant \<longrightarrow> m \<in> set (allMessages (store w)))
       \<and> learningData (store (handleSubmit complete d w)) =
           learningData (learnFromInput u d (store w))
       \<and> toasts (handleSubmit complete d w) = toasts w @ [submitErrorToast]
       \<and> \<not> isSubmitting (chatInput (handleSubmit complete d w))"
proof -
  let ?s1 = "addMessage u User (userSessionId d) (userMessageId d) (userNow d) (store w)"
  have h: "handleSubmit complete d w =
           w\<lparr>store := learnFromInput u d ?s1,
             chatInput := (chatInput w)\<lparr>inputValue := [], isSubmitting := False\<rparr>,
             toasts := toasts w @ [submitErrorToast]\<rparr>"
    using store_handleSubmit_fail[of w complete d e] ne idle fail unfolding u by simp
  have st: "store (handleSubmit complete d w) = learnFromInput u d ?s1"
    unfolding h by simp
  have am: "allMessages (store (handleSubmit complete d w)) = allMessages ?s1"
    unfolding st by (rule allMessages_learnFromInput)
  have 1: "sessions (store (handleSubmit complete d w)) = sessions ?s1"
    unfolding st by (rule sessions_learnFromInput)
  have 2: "noCurrentSession (store w) \<or>
            (\<exists>x\<in>set (sessions (store w)). Some (s_id x) = currentSessionId (store w)) \<longrightarrow>
            userTurn u d \<in> set (allMessages (store (handleSubmit complete d w)))"
    unfolding am userTurn_def using allMessages_addMessage_records by blast
  have 3: "\<forall>m\<in>set (allMessages (store (handleSubmit complete d w))).
            m_role m = Assistant \<longrightarrow> m \<in> set (allMessages (store w))"
  proof (intro ballI impI)
    fix m assume m: "m \<in> set (allMessages (store (handleSubmit complete d w)))" "m_role m = Assistant"
    from m(1) have "m \<in> insert \<lparr>m_id = userMessageId d, m_role = User, m_content = u,
                                 m_timestamp = userNow d\<rparr> (set (allMessages (store w)))"
      unfolding am using allMessages_addMessage_upper by blast
    with m(2) show "m \<in> set (allMessages (store w))" by auto
  qed
  have 4: "learningData (store (handleSubmit complete d w)) =
           learningData (learnFromInput u d (store w))"
    unfolding st by (rule learningData_learnFromInput_addMessage)
  have 5: "toasts (handleSubmit complete d w) = toasts w @ [submitErrorToast]"
    unfolding h by simp
  have 6: "\<not> isSubmitting (chatInput (handleSubmit complete d w))"
    unfolding h by simp
  from st 1 2 3 4 5 6 show ?thesis by (intro conjI)
qed

theorem handleSubmit_completion_fails_witness:
  "trim (inputValue (chatInput stalledWorld)) = ''guarde isso: 42''
 \<and> \<not> isSubmitting (chatInput stalledWorld)
 \<and> failingCompletion (completionContext (store stalledWorld) ''guarde isso: 42'' (tempNow exampleDraws))
       (preferredModel (userSettings (store stalledWorld))) = Inl (Error ''timeout'')
 \<and> (\<exists>x\<in>set (sessions (store stalledWorld)). Some (s_id x) = currentSessionId (store stalledWorld))
 \<and> userTurn ''guarde isso: 42'' exampleDraws \<in>
       set (allMessages (store (handleSubmit failingCompletion exampleDraws stalledWorld)))
 \<and> allMessages (store stalledWorld) = []
 \<and> filter (\<lambda>m. m_role m = Assistant)
       (allMessages (store (handleSubmit failingCompletion exampleDraws stalledWorld))) = []
 \<and> learningData (store (handleSubmit failingCompletion exampleDraws stalledWorld)) =
       [learned '': 42'' exampleDraws]
 \<and> toasts (handleSubmit failingCompletion exampleDraws stalledWorld) = [submitErrorToast]"
proof -
  have u: "''guarde isso: 42'' = trim (inputValue (chatInput stalledWorld))" by code_simp
  have ne: "''guarde isso: 42'' \<noteq> []" by simp
  have idle: "\<not> isSubmitting (chatInput stalledWorld)" by (simp add: stalledWorld_def typed_def)
  have fail: "failingCompletion
       (completionContext (store stalledWorld) ''guarde isso: 42'' (tempNow exampleDraws))
       (preferredModel (userSettings (store stalledWorld))) = Inl (Error ''timeout'')"
    by (simp add: failingCompletion_def)
  have valid: "\<exists>x\<in>set (sessions (store stalledWorld)).
                 Some (s_id x) = currentSessionId (store stalledWorld)"
    by (simp add: stalledWorld_def typed_def oneSession_def createNewSession_def initialState_def)
  have l: "learningData (learnFromInput ''guarde isso: 42'' exampleDraws (store stalledWorld)) =
           [learned '': 42'' exampleDraws]"
    by code_simp
  have t: "toasts stalledWorld = []" by (simp add: stalledWorld_def typed_def)
  from handleSubmit_completion_fails[where u="''guarde isso: 42''" and w=stalledWorld
         and complete=failingCompletion and d=exampleDraws and e="Error ''timeout''", OF u ne idle fail]
  have r: "userTurn ''guarde isso: 42'' exampleDraws \<in>
             set (allMessages (store (handleSubmit failingCompletion exampleDraws stalledWorld)))"
          "\<forall>m\<in>set (allMessages (store (handleSubmit failingCompletion exampleDraws stalledWorld))).
             m_role m = Assistant \<longrightarrow> m \<in> set (allMessages (store stalledWorld))"
          "learningData (store (handleSubmit failingCompletion exampleDraws stalledWorld)) =
             learningData (learnFromInput ''guarde isso: 42'' exampleDraws (store stalledWorld))"
          "toasts (handleSubmit failingCompletion exampleDraws stalledWorld) =
             toasts stalledWorld @ [submitErrorToast]"
    using valid by blast+
  have e: "allMessages (store stalledWorld) = []"
    by (simp add: stalledWorld_def typed_def oneSession_def createNewSession_def initialState_def
        allMessages_def)
  from r(2) have na: "filter (\<lambda>m. m_role m = Assistant)
       (allMessages (store (handleSubmit failingCompletion exampleDraws stalledWorld))) = []"
    unfolding e by (simp add: filter_empty_conv)
  from r(1) na e r(3)[unfolded l] r(4)[unfolded t] u[symmetric] idle fail valid
  show ?thesis by simp
qed

text \<open>
  C1, as the code has it. For a submitted text \<open>u\<close> (the trimmed input) that contains
  one of the trigger phrases \<open>aprenda isso\<close> and \<open>guarde isso\<close> and whose content,
  \<open>u\<close> without the leftmost trigger phrase and trimmed, is not empty, \<open>handleSubmit\<close>
  adds exactly one artifact, with that content, whatever the completion returns; and the
  user's message holds \<open>u\<close> itself, trigger phrase included, whenever there is no
  current session or the current session exists. Nothing but the trigger phrase and the
  white space around is removed: for a text that starts with a trigger phrase the content
  is all that follows, trimmed, so for \<open>aprenda isso: the sky is blue\<close> the content is
  \<open>: the sky is blue\<close>, with the colon.
\<close>

theorem handleSubmit_learns:
  assumes u: "u = trim (inputValue (chatInput w))"
      and ne: "u \<noteq> []"
      and idle: "\<not> isSubmitting (chatInput w)"
      and trig: "includesStr (toLowerCase u) ''aprenda isso'' \<or>
                 includesStr (toLowerCase u) ''guarde isso''"
      and c: "content = trim (replaceFirst triggerPattern u)"
      and cne: "content \<noteq> []"
  shows "learningData (store (handleSubmit complete d w)) =
           learningData (store w) @ [learned content d]
       \<and> l_content (learned content d) = content
       \<and> (noCurrentSession (store w) \<or>
            (\<exists>x\<in>set (sessions (store w)). Some (s_id x) = currentSessionId (store w)) \<longrightarrow>
            userTurn u d \<in> set (allMessages (store (handleSubmit complete d w))))
       \<and> trim (replaceFirst triggerPattern (''aprenda isso'' @ rest)) = trim rest
       \<and> trim (replaceFirst triggerPattern (''guarde isso'' @ rest)) = trim rest
       \<and> trim (replaceFirst triggerPattern ''aprenda isso: the sky is blue'') = '': the sky is blue''"
proof -
  let ?s1 = "addMessage u User (userSessionId d) (userMessageId d) (userNow d) (store w)"
  let ?s2 = "learnFromInput u d ?s1"
  have l2: "learningData ?s2 = learningData (store w) @ [learned content d]"
    using learningData_learnFromInput_hit[where u=u and state="?s1" and d=d] trig cne
    unfolding c by (simp add: rest_addMessage)
  have a2: "allMessages ?s2 = allMessages ?s1" by (rule allMessages_learnFromInput)
  from handleSubmit_cases[of w complete d] ne idle
  consider "store (handleSubmit complete d w) = ?s2"
    | r where "store (handleSubmit complete d w) =
        addMessage r Assistant (replySessionId d) (replyMessageId d) (replyNow d) ?s2"
    unfolding u by blast
  then have "learningData (store (handleSubmit complete d w)) = learningData ?s2
           \<and> set (allMessages ?s1) \<subseteq> set (allMessages (store (handleSubmit complete d w)))"
  proof cases
    case 1
    then show ?thesis by (simp add: a2)
  next
    case 2
    then show ?thesis using allMessages_addMessage_lower[of ?s2] by (simp add: rest_addMessage a2)
  qed
  moreover have "noCurrentSession (store w) \<or>
            (\<exists>x\<in>set (sessions (store w)). Some (s_id x) = currentSessionId (store w)) \<longrightarrow>
            userTurn u d \<in> set (allMessages ?s1)"
    unfolding userTurn_def using allMessages_addMessage_records by blast
  ultimately have main: "learningData (store (handleSubmit complete d w)) =
           learningData (store w) @ [learned content d]
       \<and> l_content (learned content d) = content
       \<and> (noCurrentSession (store w) \<or>
            (\<exists>x\<in>set (sessions (store w)). Some (s_id x) = currentSessionId (store w)) \<longrightarrow>
            userTurn u d \<in> set (allMessages (store (handleSubmit complete d w))))"
    using l2 by (auto simp: learned_def)
  have p1: "trim (replaceFirst triggerPattern (''aprenda isso'' @ rest)) = trim rest"
    by (simp only: replaceFirst_aprenda)
  have p2: "trim (replaceFirst triggerPattern (''guarde isso'' @ rest)) = trim rest"
    by (simp only: replaceFirst_guarde)
  have p3: "trim (replaceFirst triggerPattern ''aprenda isso: the sky is blue'') = '': the sky is blue''"
    by code_simp
  from main p1 p2 p3 show ?thesis by (intro conjI) blast+
qed

theorem handleSubmit_learns_witness:
  "trim (inputValue (chatInput skyWorld)) = ''Aprenda isso: the sky is blue''
 \<and> \<not> isSubmitting (chatInput skyWorld)
 \<and> includesStr (toLowerCase ''Aprenda isso: the sky is blue'') ''aprenda isso''
 \<and> trim (replaceFirst triggerPattern ''Aprenda isso: the sky is blue'') = '': the sky is blue''
 \<and> noCurrentSession (store skyWorld)
 \<and> learningData (store (handleSubmit cannedReply exampleDraws skyWorld)) =
      [learned '': the sky is blue'' exampleDraws]
 \<and> userTurn ''Aprenda isso: the sky is blue'' exampleDraws \<in>
      set (allMessages (store (handleSubmit cannedReply exampleDraws skyWorld)))
 \<and> trim (inputValue (chatInput exampleWorld)) = ''aprenda isso: the sky is blue''
 \<and> includesStr (toLowerCase ''aprenda isso: the sky is blue'') ''aprenda isso''
 \<and> learningData (store (handleSubmit cannedReply exampleDraws exampleWorld)) =
      [learned '': the sky is blue'' exampleDraws]
 \<and> userTurn ''aprenda isso: the sky is blue'' exampleDraws \<in>
      set (allMessages (store (handleSubmit cannedReply exampleDraws exampleWorld)))"
proof -
  have u: "''Aprenda isso: the sky is blue'' = trim (inputValue (chatInput skyWorld))"
    by code_simp
  have ne: "''Aprenda isso: the sky is blue'' \<noteq> []" by simp
  have idle: "\<not> isSubmitting (chatInput skyWorld)" by (simp add: skyWorld_def typed_def)
  have trig: "includesStr (toLowerCase ''Aprenda isso: the sky is blue'') ''aprenda isso''"
    by code_simp
  have c: "'': the sky is blue'' = trim (replaceFirst triggerPattern ''Aprenda isso: the sky is blue'')"
    by code_simp
  have cne: "'': the sky is blue'' \<noteq> []" by simp
  have n: "noCurrentSession (store skyWorld)"
    by (simp add: skyWorld_def typed_def initialState_def noCurrentSession_def)
  have l: "learningData (store skyWorld) = []"
    by (simp add: skyWorld_def typed_def initialState_def)
  have first: "learningData (store (handleSubmit cannedReply exampleDraws skyWorld)) =
      [learned '': the sky is blue'' exampleDraws]
    \<and> userTurn ''Aprenda isso: the sky is blue'' exampleDraws \<in>
      set (allMessages (store (handleSubmit cannedReply exampleDraws skyWorld)))"
    using handleSubmit_learns[OF u ne idle disjI1[OF trig] c cne, of cannedReply exampleDraws]
      n l by simp
  have u': "''aprenda isso: the sky is blue'' = trim (inputValue (chatInput exampleWorld))"
    by code_simp
  have ne': "''aprenda isso: the sky is blue'' \<noteq> []" by simp
  have idle': "\<not> isSubmitting (chatInput exampleWorld)"
    by (simp add: exampleWorld_def typed_def)
  have trig': "includesStr (toLowerCase ''aprenda isso: the sky is blue'') ''aprenda isso''"
    by code_simp
  have c': "'': the sky is blue'' = trim (replaceFirst triggerPattern ''aprenda isso: the sky is blue'')"
    by code_simp
  have n': "noCurrentSession (store exampleWorld)"
    by (simp add: exampleWorld_def typed_def initialState_def noCurrentSession_def)
  have l': "learningData (store exampleWorld) = []"
    by (simp add: exampleWorld_def typed_def initialState_def)
  have second: "learningData (store (handleSubmit cannedReply exampleDraws exampleWorld)) =
      [learned '': the sky is blue'' exampleDraws]
    \<and> userTurn ''aprenda isso: the sky is blue'' exampleDraws \<in>
      set (allMessages (store (handleSubmit cannedReply exampleDraws exampleWorld)))"
    using handleSubmit_learns[OF u' ne' idle' disjI1[OF trig'] c' cne, of cannedReply exampleDraws]
      n' l' by simp
  from first second u[symmetric] idle trig c[symmetric] n u'[symmetric] trig'
  show ?thesis by (intro conjI) blast+
qed

text \<open>
  C1 as stated fails. On its example, with the program's phrase: for
  \<open>aprenda isso: the sky is blue\<close> the content of the artifact is
  \<open>: the sky is blue\<close>, with the colon, and not \<open>the sky is blue\<close>. In a store whose
  current-session reference names no session, the same text creates the artifact and the
  user's message is stored nowhere. And an input typed with white space around it is
  stored without it.
\<close>

theorem handleSubmit_keeps_colon:
  "map l_content (learningData (store (handleSubmit cannedReply exampleDraws exampleWorld)))
     = ['': the sky is blue'']
 \<and> map l_content (learningData (store (handleSubmit cannedReply exampleDraws exampleWorld)))
     \<noteq> [''the sky is blue'']
 \<and> currentSessionId (store danglingWorld) = Some ''ghost''
 \<and> sessionIds (store danglingWorld) = [''a'']
 \<and> allMessages (store (handleSubmit cannedReply exampleDraws danglingWorld)) = []
 \<and> map l_content (learningData (store (handleSubmit cannedReply exampleDraws danglingWorld)))
     = ['': the sky is blue'']
 \<and> inputValue (chatInput skyWorld) = ''  Aprenda isso: the sky is blue ''
 \<and> map m_content (allMessages (store (handleSubmit cannedReply exampleDraws skyWorld)))
     = [''Aprenda isso: the sky is blue'', ''ok'']"
  by code_simp

text \<open>
  C2, as the code has it. The messages handed to the completion are all the messages of
  the current session, however many, in their order, followed by the new text; without a
  current session they are the new text alone. \<open>handleSubmit\<close> depends on the completion
  through its outcome on these messages only.
\<close>

theorem completionContext_whole_history:
  "(currentSessionId state = Some c \<and> sessionMessages c state = Some turns \<longrightarrow>
      completionContext state userInput now = turns @ [tempMessage userInput now]
    \<and> length (completionContext state userInput now) = length turns + 1)
 \<and> (currentSessionId state = None \<longrightarrow>
      completionContext state userInput now = [tempMessage userInput now])
 \<and> (complete (completionContext (store w) (trim (inputValue (chatInput w))) (tempNow d))
        (preferredModel (userSettings (store w))) =
      complete' (completionContext (store w) (trim (inputValue (chatInput w))) (tempNow d))
        (preferredModel (userSettings (store w))) \<longrightarrow>
      handleSubmit complete d w = handleSubmit complete' d w)"
proof (intro conjI impI)
  assume a: "currentSessionId state = Some c \<and> sessionMessages c state = Some turns"
  then show 1: "completionContext state userInput now = turns @ [tempMessage userInput now]"
    by (auto simp: completionContext_def sessionMessages_def tempMessage_def split: option.splits)
  show "length (completionContext state userInput now) = length turns + 1"
    unfolding 1 by simp
next
  assume "currentSessionId state = None"
  then show "completionContext state userInput now = [tempMessage userInput now]"
    by (simp add: completionContext_def tempMessage_def find_False)
next
  assume "complete (completionContext (store w) (trim (inputValue (chatInput w))) (tempNow d))
        (preferredModel (userSettings (store w))) =
      complete' (completionContext (store w) (trim (inputValue (chatInput w))) (tempNow d))
        (preferredModel (userSettings (store w)))"
  then show "handleSubmit complete d w = handleSubmit complete' d w"
    by (rule handleSubmit_cong)
qed

theorem completionContext_whole_history_witness:
  "currentSessionId twoTurns = Some ''s1''
 \<and> map_option (map m_content) (sessionMessages ''s1'' twoTurns) = Some [''hi'', ''hello'']
 \<and> map m_content (completionContext twoTurns ''how are you'' 3) = [''hi'', ''hello'', ''how are you'']
 \<and> length (completionContext twoTurns ''how are you'' 3) = 3
 \<and> completionContext initialState ''how are you'' 3 = [tempMessage ''how are you'' 3]
 \<and> handleSubmit cannedReply exampleDraws greetWorld = handleSubmit agreeingReply exampleDraws greetWorld"
proof -
  obtain turns where t: "sessionMessages ''s1'' twoTurns = Some turns"
      and tc: "map m_content turns = [''hi'', ''hello'']"
    by (simp add: twoTurns_def twoCalls_def sessionMessages_def addMessage_def noCurrentSession_def
        initialState_def)
  have cur: "currentSessionId twoTurns = Some ''s1''"
    by (simp add: twoTurns_def twoCalls_def addMessage_def noCurrentSession_def initialState_def)
  have none: "currentSessionId initialState = None" by (simp add: initialState_def)
  have agree: "cannedReply (completionContext (store greetWorld)
                  (trim (inputValue (chatInput greetWorld))) (tempNow exampleDraws))
                 (preferredModel (userSettings (store greetWorld))) =
               agreeingReply (completionContext (store greetWorld)
                  (trim (inputValue (chatInput greetWorld))) (tempNow exampleDraws))
                 (preferredModel (userSettings (store greetWorld)))"
    by (simp add: cannedReply_def agreeingReply_def completionContext_def)
  have a: "completionContext twoTurns ''how are you'' 3 = turns @ [tempMessage ''how are you'' 3]"
          "length (completionContext twoTurns ''how are you'' 3) = length turns + 1"
    using completionContext_whole_history[where state=twoTurns and c="''s1''" and turns=turns
        and userInput="''how are you''" and now=3] cur t
    by simp_all
  have b: "completionContext initialState ''how are you'' 3 = [tempMessage ''how are you'' 3]"
    using completionContext_whole_history[where state=initialState and userInput="''how are you''"
        and now=3] none by simp
  have c: "handleSubmit cannedReply exampleDraws greetWorld =
           handleSubmit agreeingReply exampleDraws greetWorld"
    using completionContext_whole_history[where complete=cannedReply and w=greetWorld
        and d=exampleDraws and complete'=agreeingReply]
      agree by blast
  from tc have len: "length turns = 2" by (metis length_map length_Cons list.size(3) numeral_2_eq_2)
  show ?thesis
    using cur t tc a b c len by (simp add: tempMessage_def)
qed

text \<open>
  C2 as stated fails: with the turns \<open>hi\<close> and \<open>hello\<close> in the session and the new
  text \<open>how are you\<close>, the completion receives all three, where the last two turns
  would be \<open>hello\<close> and \<open>how are you\<close>.
\<close>

theorem completionContext_exceeds_limit:
  "map m_content (completionContext twoTurns ''how are you'' 3) = [''hi'', ''hello'', ''how are you'']
 \<and> spec_recent_history 2 [''hi'', ''hello'', ''how are you''] = [''hello'', ''how are you'']
 \<and> map m_content (completionContext twoTurns ''how are you'' 3) \<noteq>
     spec_recent_history 2 [''hi'', ''hello'', ''how are you'']"
  by code_simp

end
